theory Spec2Isabelle
  imports Main "HOL-Library.Word"
begin

section \<open>JavaScript values\<close>

text \<open>
  A JavaScript string is a sequence of UTF-16 code units. String literals of the sources
  are ASCII and are written through \<open>ascii\<close>.
\<close>

type_synonym js_string = "16 word list"

definition ascii :: "string \<Rightarrow> js_string" where
  "ascii s = map of_char s"

text \<open>
  The truthiness of a string: only the empty string is falsy. An \<open>undefined\<close> value is
  \<open>None\<close>; \<open>v || ''\<close> on a value that is a string or \<open>undefined\<close>:
\<close>

definition truthy :: "js_string \<Rightarrow> bool" where
  "truthy s = (s \<noteq> [])"

definition or_empty :: "js_string option \<Rightarrow> js_string" where
  "or_empty v = (case v of None \<Rightarrow> [] | Some s \<Rightarrow> (if truthy s then s else []))"

text \<open>
  A value parsed from JSON. A number is carried as the text that JavaScript's
  \<open>ToString\<close> prints for it, an object as its members in the order of the text.
\<close>

datatype json =
  JNull
| JBool bool
| JNumber js_string
| JString js_string
| JArray "json list"
| JObject "(js_string \<times> json) list"

text \<open>
  \<open>v.k\<close> for a value \<open>v\<close> that is not \<open>null\<close> and a key that no prototype defines
  (\<open>parts\<close>, \<open>type\<close>, \<open>text\<close>): the member of an object, the last one where the text
  repeats the key, and \<open>undefined\<close> (\<open>None\<close>) on every other value. Reading a property
  of \<open>null\<close> throws; the callers below say where that happens.
\<close>

fun property :: "json \<Rightarrow> js_string \<Rightarrow> json option" where
  "property (JObject members) k = map_of (rev members) k"
| "property _ k = None"

text \<open>
  \<open>ToString\<close> of a value: an array prints its elements separated by commas, a
  \<open>null\<close> element as nothing; an object prints as \<open>[object Object]\<close>.
\<close>

fun separate :: "js_string \<Rightarrow> js_string list \<Rightarrow> js_string" where
  "separate sep [] = []"
| "separate sep [x] = x"
| "separate sep (x # y # ys) = x @ sep @ separate sep (y # ys)"

fun to_string :: "json \<Rightarrow> js_string" where
  "to_string JNull = ascii ''null''"
| "to_string (JBool b) = (if b then ascii ''true'' else ascii ''false'')"
| "to_string (JNumber n) = n"
| "to_string (JString s) = s"
| "to_string (JArray xs) =
     separate (ascii '','') (map (\<lambda>x. if x = JNull then [] else to_string x) xs)"
| "to_string (JObject members) = ascii ''[object Object]''"

text \<open>
  \<open>Array.prototype.join\<close>: the elements as strings, separated by \<open>sep\<close>; an
  \<open>undefined\<close> and a \<open>null\<close> element contribute the empty string.
\<close>

definition element_string :: "json option \<Rightarrow> js_string" where
  "element_string v = (case v of None \<Rightarrow> [] | Some x \<Rightarrow> (if x = JNull then [] else to_string x))"

definition join :: "js_string \<Rightarrow> json option list \<Rightarrow> js_string" where
  "join sep vs = separate sep (map element_string vs)"

text \<open>
  \<open>String.prototype.trim\<close> removes leading and trailing white space and line
  terminators (ECMAScript \<open>WhiteSpace\<close> and \<open>LineTerminator\<close>, all of them single
  code units).
\<close>

definition is_whitespace :: "16 word \<Rightarrow> bool" where
  "is_whitespace c \<longleftrightarrow>
     c = 0x0009 \<or> c = 0x000A \<or> c = 0x000B \<or> c = 0x000C \<or> c = 0x000D \<or> c = 0x0020 \<or>
     c = 0x00A0 \<or> c = 0x1680 \<or> (0x2000 \<le> c \<and> c \<le> 0x200A) \<or> c = 0x2028 \<or> c = 0x2029 \<or>
     c = 0x202F \<or> c = 0x205F \<or> c = 0x3000 \<or> c = 0xFEFF"

definition trim :: "js_string \<Rightarrow> js_string" where
  "trim s = rev (dropWhile is_whitespace (rev (dropWhile is_whitespace s)))"

text \<open>
  Errors a call can throw: a body that is not JSON, a property read on \<open>undefined\<close>,
  the file-system errors of \<open>fs.readdir\<close> and \<open>fs.readFile\<close>, and whatever the agent
  runtime throws (opaque, with its message).
\<close>

datatype js_error = SyntaxError | TypeError | ENOENT | EISDIR | Thrown js_string

section \<open>The sandbox service\<close>

text \<open>
  The sandbox is a remote service; what a command does there is not decided by this
  repository and is a parameter (\<open>executor\<close>): from the sandbox's files, a command and
  its arguments it gives the finished command and the files afterwards. The model keeps
  the files written to the sandbox and the history of the commands it was asked to run;
  a newly created sandbox holds no such file and has run no command.
\<close>

type_synonym bytes = "8 word list"

record command_finished =
  result_stdout :: js_string
  result_stderr :: js_string
  result_exitCode :: int

type_synonym executor =
  "(js_string \<rightharpoonup> bytes) \<Rightarrow> js_string \<Rightarrow> js_string list
     \<Rightarrow> command_finished \<times> (js_string \<rightharpoonup> bytes)"

record sandbox =
  files :: "js_string \<rightharpoonup> bytes"
  history :: "(js_string \<times> js_string list) list"

record file_spec =
  path :: js_string
  content :: bytes

definition Sandbox_create :: sandbox where
  "Sandbox_create = \<lparr>files = Map.empty, history = []\<rparr>"

definition runCommand ::
  "executor \<Rightarrow> sandbox \<Rightarrow> js_string \<Rightarrow> js_string list \<Rightarrow> command_finished \<times> sandbox" where
  "runCommand sh sb cmd as =
     (let (result, fs) = sh (files sb) cmd as
      in (result, \<lparr>files = fs, history = history sb @ [(cmd, as)]\<rparr>))"

definition writeFiles :: "sandbox \<Rightarrow> file_spec list \<Rightarrow> sandbox" where
  "writeFiles sb fs = sb\<lparr>files := fold (\<lambda>f m. m(path f \<mapsto> content f)) fs (files sb)\<rparr>"

section \<open>lib/agent.ts\<close>

text \<open>
  The settings object passed to \<open>new ToolLoopAgent\<close> is modelled as the object literal
  it is: the list of its fields, each with its value. A tool is a description, an input
  schema (field name, type, description of the field) and an \<open>execute\<close> function.
\<close>

datatype zod = ZString | ZArray zod

record bash_input =
  command :: js_string
  args :: "js_string list"

record bash_output =
  stdout :: js_string
  stderr :: js_string
  exitCode :: int

record tool =
  description :: js_string
  inputSchema :: "(string \<times> zod \<times> js_string) list"
  execute :: "bash_input \<Rightarrow> sandbox \<Rightarrow> bash_output \<times> sandbox"

datatype setting = StringSetting js_string | ToolsSetting "(string \<times> tool) list"

datatype tool_loop_agent = ToolLoopAgent (settings: "(string \<times> setting) list")

definition agent :: tool_loop_agent where
  "agent = ToolLoopAgent
     [(''model'', StringSetting (ascii ''anthropic/claude-opus-4.6'')),
      (''tools'', ToolsSetting []),
      (''instructions'', StringSetting (ascii []))]"

definition tools :: "tool_loop_agent \<Rightarrow> (string \<times> tool) list" where
  "tools a = (case map_of (settings a) ''tools'' of Some (ToolsSetting ts) \<Rightarrow> ts | _ \<Rightarrow> [])"

text \<open>
  Loading the module: the file as it stands reads no local file and creates no sandbox;
  it only constructs the agent. The world around it is the local \<open>lib/calls\<close>
  directory (\<open>None\<close> when it does not exist; its entries in listing order) and the
  sandboxes created so far.
\<close>

datatype entry = File bytes | Directory

record world =
  calls_dir :: "(js_string \<times> entry) list option"
  sandboxes :: "sandbox list"

definition module_agent :: "world \<Rightarrow> js_error + tool_loop_agent \<times> world" where
  "module_agent w = Inr (agent, w)"

section \<open>README.md: the tutorial's lib/tools.ts and its completed lib/agent.ts\<close>

text \<open>
  The README lists the code the tutorial's reader is to add: the bash tool
  (\<open>createBashTool\<close>), the copy loop (\<open>loadSandboxFiles\<close>) and the completed agent
  module. None of it is imported by \<open>lib/agent.ts\<close> as it stands.

  \<open>createBashTool(sandbox)\<close>: the tool's \<open>execute\<close> passes \<open>command\<close> and \<open>args\<close>
  to \<open>sandbox.runCommand\<close> and returns the run's stdout, stderr and exit code. The
  sandbox handle of the source is the state \<open>execute\<close> is applied to.
\<close>

definition createBashTool :: "executor \<Rightarrow> tool" where
  "createBashTool sh =
     \<lparr>description =
        ascii [CHR 0x0A] @
        ascii ''      Execute bash commands to explore transcript and instruction files.'' @
        ascii [CHR 0x0A] @
        ascii ''      Examples (not exhaustive): ls, cat, less, head, tail, grep'' @
        ascii [CHR 0x0A] @ ascii ''      '',
      inputSchema =
        [(''command'', ZString, ascii ''The bash command to execute''),
         (''args'', ZArray ZString, ascii ''Arguments to pass to the command'')],
      execute = (\<lambda>inp sb.
        let (result, sb') = runCommand sh sb (command inp) (args inp);
            textResults = result_stdout result;
            stderr' = result_stderr result
        in (\<lparr>stdout = textResults, stderr = stderr', exitCode = result_exitCode result\<rparr>, sb'))\<rparr>"

text \<open>
  \<open>loadSandboxFiles(sandbox)\<close>: \<open>fs.readdir\<close> of \<open>lib/calls\<close>, then for each name
  \<open>fs.readFile\<close> and \<open>sandbox.writeFiles\<close> of one file at \<open>calls/<name>\<close>. A missing
  directory and an entry that is a directory make the call throw.
\<close>

definition readdir :: "world \<Rightarrow> js_error + js_string list" where
  "readdir w = (case calls_dir w of None \<Rightarrow> Inl ENOENT | Some d \<Rightarrow> Inr (map fst d))"

definition readFile :: "world \<Rightarrow> js_string \<Rightarrow> js_error + bytes" where
  "readFile w name =
     (case calls_dir w of
        None \<Rightarrow> Inl ENOENT
      | Some d \<Rightarrow>
          (case map_of d name of
             None \<Rightarrow> Inl ENOENT
           | Some Directory \<Rightarrow> Inl EISDIR
           | Some (File buffer) \<Rightarrow> Inr buffer))"

fun copy_loop :: "world \<Rightarrow> js_string list \<Rightarrow> sandbox \<Rightarrow> js_error + sandbox" where
  "copy_loop w [] sb = Inr sb"
| "copy_loop w (file # callFiles) sb =
     (case readFile w file of
        Inl e \<Rightarrow> Inl e
      | Inr buffer \<Rightarrow>
          copy_loop w callFiles
            (writeFiles sb [\<lparr>path = ascii ''calls/'' @ file, content = buffer\<rparr>]))"

definition loadSandboxFiles :: "world \<Rightarrow> sandbox \<Rightarrow> js_error + sandbox" where
  "loadSandboxFiles w sb =
     (case readdir w of Inl e \<Rightarrow> Inl e | Inr callFiles \<Rightarrow> copy_loop w callFiles sb)"

text \<open>
  The README's completed \<open>lib/agent.ts\<close>: create the sandbox, load the files, then
  construct the agent with the one tool \<open>bashTool\<close>.
\<close>

definition INSTRUCTIONS :: js_string where
  "INSTRUCTIONS =
     ascii [CHR 0x0A] @
     ascii ''You are a helpful assistant that answers questions about customer calls. '' @
     ascii ''Use bashTool to explore the files and find relevant information pertaining to '' @
     ascii ''the user'' @ ascii [CHR 0x27] @
     ascii ''s query. Using the information you find, craft a response for the user '' @
     ascii ''and output it as text.'' @
     ascii [CHR 0x0A]"

definition MODEL :: js_string where
  "MODEL = ascii ''anthropic/claude-opus-4.6''"

definition agent_complete :: "executor \<Rightarrow> tool_loop_agent" where
  "agent_complete sh = ToolLoopAgent
     [(''model'', StringSetting MODEL),
      (''instructions'', StringSetting INSTRUCTIONS),
      (''tools'', ToolsSetting [(''bashTool'', createBashTool sh)])]"

definition module_agent_complete ::
  "executor \<Rightarrow> world \<Rightarrow> js_error + tool_loop_agent \<times> world" where
  "module_agent_complete sh w =
     (case loadSandboxFiles w Sandbox_create of
        Inl e \<Rightarrow> Inl e
      | Inr sb \<Rightarrow> Inr (agent_complete sh, w\<lparr>sandboxes := sandboxes w @ [sb]\<rparr>))"

section \<open>app/api/route.ts\<close>

subsection \<open>Messages\<close>

text \<open>
  The handler declares \<open>messages\<close> as \<open>UIMessage[]\<close>, but nothing checks the body
  against that type: the elements of the array are whatever JSON the body holds. A
  \<open>UIMessage\<close> is an object with \<open>id\<close>, \<open>role\<close> and \<open>parts\<close>, an array of objects
  that each have a \<open>type\<close>, text parts also a \<open>text\<close>.

  \<open>messages[messages.length - 1]\<close>: reading index \<open>-1\<close> of an empty array gives
  \<open>undefined\<close>.
\<close>

definition lastMessage :: "json list \<Rightarrow> json option" where
  "lastMessage messages =
     (if length messages = 0 then None else Some (messages ! (length messages - 1)))"

text \<open>
  \<open>lastMessage?.parts\<close>: \<open>undefined\<close> when the last message is \<open>undefined\<close> or
  \<open>null\<close>.
\<close>

definition optional_parts :: "json option \<Rightarrow> json option" where
  "optional_parts v =
     (case v of
        None \<Rightarrow> None
      | Some m \<Rightarrow> (if m = JNull then None else property m (ascii ''parts'')))"

text \<open>
  \<open>.filter((part) => part.type === 'text')\<close> on an array: the callback reads
  \<open>part.type\<close> of every element, which throws on a \<open>null\<close> element.
\<close>

fun filter_text :: "json list \<Rightarrow> js_error + json list" where
  "filter_text [] = Inr []"
| "filter_text (part # rest) =
     (if part = JNull then Inl TypeError
      else (case filter_text rest of
              Inl e \<Rightarrow> Inl e
            | Inr kept \<Rightarrow>
                Inr (if property part (ascii ''type'') = Some (JString (ascii ''text''))
                     then part # kept else kept)))"

text \<open>
  \<open>lastMessage?.parts?.filter(...).map((part) => part.text).join('\n') || ''\<close>: an
  \<open>undefined\<close> or \<open>null\<close> \<open>parts\<close> short-circuits the whole chain to
  \<open>undefined\<close>; on any other value that is not an array, \<open>filter\<close> is not a
  function and the call throws.
\<close>

definition prompt :: "json list \<Rightarrow> js_error + js_string" where
  "prompt messages =
     (case optional_parts (lastMessage messages) of
        None \<Rightarrow> Inr (or_empty None)
      | Some JNull \<Rightarrow> Inr (or_empty None)
      | Some (JArray ps) \<Rightarrow>
          (case filter_text ps of
             Inl e \<Rightarrow> Inl e
           | Inr kept \<Rightarrow>
               Inr (or_empty
                      (Some (join (ascii [CHR 0x0A])
                               (map (\<lambda>part. property part (ascii ''text'')) kept)))))
      | Some _ \<Rightarrow> Inl TypeError)"

subsection \<open>The handler\<close>

text \<open>
  The chunks of a UI message stream: the \<open>start\<close> chunk of a message, with its
  message id if it has one; the three text chunks the handler writes itself; and any
  other chunk of the agent's stream (its type and payload).
\<close>

datatype chunk =
  Start "js_string option"
| TextStart js_string
| TextDelta js_string js_string
| TextEnd js_string
| OtherChunk js_string js_string

text \<open>
  What \<open>execute\<close> acts on: the chunks written to the stream so far, the prompts
  \<open>agent.stream\<close> was called with, and the errors logged by \<open>console.error\<close>.
\<close>

record stream_state =
  written :: "chunk list"
  agent_calls :: "js_string list"
  console :: "js_error list"

definition writer_write :: "stream_state \<Rightarrow> chunk \<Rightarrow> stream_state" where
  "writer_write w c = w\<lparr>written := written w @ [c]\<rparr>"

definition writer_merge :: "stream_state \<Rightarrow> chunk list \<Rightarrow> stream_state" where
  "writer_merge w cs = w\<lparr>written := written w @ cs\<rparr>"

definition console_error :: "stream_state \<Rightarrow> js_error \<Rightarrow> stream_state" where
  "console_error w e = w\<lparr>console := console w @ [e]\<rparr>"

text \<open>
  The agent runtime is the library's: \<open>agent.stream({ prompt })\<close> followed by
  \<open>toUIMessageStream()\<close> either throws or gives the chunks of the run. It is a
  parameter of the handler.
\<close>

type_synonym runtime = "tool_loop_agent \<Rightarrow> js_string \<Rightarrow> js_error + chunk list"

definition execute_route :: "runtime \<Rightarrow> js_string \<Rightarrow> stream_state \<Rightarrow> stream_state" where
  "execute_route rt p writer =
     (let called = writer\<lparr>agent_calls := agent_calls writer @ [p]\<rparr>
      in case rt agent p of
           Inr stream \<Rightarrow> writer_merge called stream
         | Inl error \<Rightarrow>
             (let w0 = console_error called error;
                  w1 = writer_write w0 (TextStart (ascii ''error''));
                  w2 = writer_write w1 (TextDelta (ascii ''error'')
                                   (ascii ''An error occurred. Please try again.''));
                  w3 = writer_write w2 (TextEnd (ascii ''error''))
              in w3))"

text \<open>
  \<open>createUIMessageStream\<close> is the library's: it runs \<open>execute\<close> on a new writer and
  passes on what was written, chunk by chunk; a \<open>start\<close> chunk that has no message id
  is given the id the stream generated (\<open>generateId()\<close>, a parameter here), every
  other chunk is passed on as it is.
\<close>

fun inject_id :: "js_string \<Rightarrow> chunk \<Rightarrow> chunk" where
  "inject_id messageId (Start None) = Start (Some messageId)"
| "inject_id messageId c = c"

definition createUIMessageStream ::
  "js_string \<Rightarrow> (stream_state \<Rightarrow> stream_state) \<Rightarrow> stream_state" where
  "createUIMessageStream messageId ex =
     (let st = ex \<lparr>written = [], agent_calls = [], console = []\<rparr>
      in st\<lparr>written := map (inject_id messageId) (written st)\<rparr>)"

datatype response = UIMessageStreamResponse (stream: "chunk list")

definition createUIMessageStreamResponse :: "stream_state \<Rightarrow> response" where
  "createUIMessageStreamResponse st = UIMessageStreamResponse (written st)"

text \<open>
  A request is what \<open>await request.json()\<close> gives: a thrown error, or the parsed body
  with its \<open>messages\<close>, an array (\<open>None\<close> when the body has no \<open>messages\<close> or
  \<open>null\<close>, and then reading \<open>messages.length\<close> throws; a \<open>messages\<close> of any other
  kind is outside this model). An error of the prompt's extraction is thrown by the
  handler before the response is made. The handler returns the response, with the
  prompts the agent was started on and the errors logged.
\<close>

record json_body =
  messages :: "json list option"

record request =
  json :: "js_error + json_body"

definition POST ::
  "runtime \<Rightarrow> js_string \<Rightarrow> request \<Rightarrow> js_error + response \<times> js_string list \<times> js_error list" where
  "POST rt messageId req =
     (case json req of
        Inl e \<Rightarrow> Inl e
      | Inr b \<Rightarrow>
          (case messages b of
             None \<Rightarrow> Inl TypeError
           | Some ms \<Rightarrow>
               (case prompt ms of
                  Inl e \<Rightarrow> Inl e
                | Inr p \<Rightarrow>
                    (let st = createUIMessageStream messageId (execute_route rt p)
                     in Inr (createUIMessageStreamResponse st, agent_calls st, console st)))))"

section \<open>app/form.tsx\<close>

text \<open>
  The state \<open>handleSubmit\<close> acts on: the \<open>input\<close> state of the component, the
  \<open>text\<close> of every \<open>sendMessage({ text })\<close> so far, and whether the submit event's
  default was prevented.
\<close>

record form =
  input :: js_string
  sent :: "js_string list"
  defaultPrevented :: bool

definition setInput :: "form \<Rightarrow> js_string \<Rightarrow> form" where
  "setInput f v = f\<lparr>input := v\<rparr>"

definition sendMessage :: "form \<Rightarrow> js_string \<Rightarrow> form" where
  "sendMessage f t = f\<lparr>sent := sent f @ [t]\<rparr>"

definition handleSubmit :: "form \<Rightarrow> form" where
  "handleSubmit f =
     (let e = f\<lparr>defaultPrevented := True\<rparr>
      in if \<not> truthy (trim (input e)) then e
         else (let t = input e in sendMessage (setInput e (ascii [])) t))"

section \<open>Reference definition and example inputs\<close>


text \<open>
  Inputs for the examples: parts and messages, two agent runtimes, a generated message
  id, an executor and two worlds.
\<close>

definition text_of :: "string \<Rightarrow> json" where
  "text_of s = JObject [(ascii ''type'', JString (ascii ''text'')), (ascii ''text'', JString (ascii s))]"

definition tool_call :: json where
  "tool_call =
     JObject [(ascii ''type'', JString (ascii ''tool-bashTool'')),
              (ascii ''toolCallId'', JString (ascii ''call-1''))]"

definition user_message :: "json list \<Rightarrow> json" where
  "user_message ps =
     JObject [(ascii ''id'', JString (ascii ''m1'')), (ascii ''role'', JString (ascii ''user'')),
              (ascii ''parts'', JArray ps)]"

definition bare_message :: json where
  "bare_message =
     JObject [(ascii ''id'', JString (ascii ''m0'')), (ascii ''role'', JString (ascii ''user''))]"

definition request_of :: "json list \<Rightarrow> request" where
  "request_of ms = \<lparr>json = Inr \<lparr>messages = Some ms\<rparr>\<rparr>"

definition generated_id :: js_string where
  "generated_id = ascii ''msg-1''"

definition failing_runtime :: runtime where
  "failing_runtime a p = Inl (Thrown (ascii ''gateway unreachable''))"

definition echo_runtime :: runtime where
  "echo_runtime a p =
     Inr [Start None, TextStart (ascii ''0''), TextDelta (ascii ''0'') p, TextEnd (ascii ''0'')]"

definition echo_executor :: executor where
  "echo_executor fs cmd as =
     (\<lparr>result_stdout = cmd, result_stderr = concat as, result_exitCode = 0\<rparr>, fs)"

definition example_world :: world where
  "example_world =
     \<lparr>calls_dir = Some [(ascii ''1.md'', File [0x68, 0x69]), (ascii ''2.md'', File [0x6F])],
      sandboxes = []\<rparr>"

definition directory_world :: world where
  "directory_world =
     \<lparr>calls_dir = Some [(ascii ''1.md'', File [0x68, 0x69]), (ascii ''old'', Directory),
                        (ascii ''z.md'', File [0x6F])],
      sandboxes = []\<rparr>"

section \<open>Properties of the chat form\<close>

lemma dropWhile_all_iff: "(\<forall>x\<in>set (dropWhile P xs). P x) \<longleftrightarrow> (\<forall>x\<in>set xs. P x)"
  by (induction xs) auto

lemma trim_empty_iff: "trim s = [] \<longleftrightarrow> list_all is_whitespace s"
proof -
  have "trim s = [] \<longleftrightarrow> (\<forall>x\<in>set (rev (dropWhile is_whitespace s)). is_whitespace x)"
    by (simp add: trim_def)
  also have "\<dots> \<longleftrightarrow> (\<forall>x\<in>set s. is_whitespace x)"
    by (simp add: dropWhile_all_iff)
  finally show ?thesis by (simp add: list_all_iff)
qed

lemma handleSubmit_blank:
  "list_all is_whitespace (input f) \<Longrightarrow> handleSubmit f = f\<lparr>defaultPrevented := True\<rparr>"
  by (simp add: handleSubmit_def Let_def truthy_def trim_empty_iff)

lemma handleSubmit_text:
  "\<not> list_all is_whitespace (input f) \<Longrightarrow>
     handleSubmit f = f\<lparr>input := [], sent := sent f @ [input f], defaultPrevented := True\<rparr>"
  by (simp add: handleSubmit_def Let_def truthy_def trim_empty_iff sendMessage_def
      setInput_def ascii_def)

text \<open>
  C9. In \<open>handleSubmit\<close>, an input that is empty or consists of white space only sends
  no message and leaves the input state as it is; any other input resets the input state
  to the empty string and sends a message whose text is the input as typed, untrimmed.
\<close>

theorem handleSubmit_spec:
  "(list_all is_whitespace (input f) \<longrightarrow>
      sent (handleSubmit f) = sent f \<and> input (handleSubmit f) = input f) \<and>
   (\<not> list_all is_whitespace (input f) \<longrightarrow>
      input (handleSubmit f) = ascii '''' \<and> sent (handleSubmit f) = sent f @ [input f])"
  by (simp add: handleSubmit_blank handleSubmit_text ascii_def)

theorem handleSubmit_spec_witness:
  "list_all is_whitespace [0x0020, 0x3000, 0x000A] \<and>
   sent (handleSubmit
     \<lparr>input = [0x0020, 0x3000, 0x000A], sent = [ascii ''a''], defaultPrevented = False\<rparr>)
     = [ascii ''a''] \<and>
   input (handleSubmit
     \<lparr>input = [0x0020, 0x3000, 0x000A], sent = [ascii ''a''], defaultPrevented = False\<rparr>)
     = [0x0020, 0x3000, 0x000A] \<and>
   \<not> list_all is_whitespace (ascii '' hi '') \<and>
   input (handleSubmit
     \<lparr>input = ascii '' hi '', sent = [ascii ''a''], defaultPrevented = False\<rparr>) = [] \<and>
   sent (handleSubmit
     \<lparr>input = ascii '' hi '', sent = [ascii ''a''], defaultPrevented = False\<rparr>)
     = [ascii ''a'', ascii '' hi '']"
  using
    handleSubmit_spec
      [of "\<lparr>input = [0x0020, 0x3000, 0x000A], sent = [ascii ''a''], defaultPrevented = False\<rparr>"]
    handleSubmit_spec
      [of "\<lparr>input = ascii '' hi '', sent = [ascii ''a''], defaultPrevented = False\<rparr>"]
  by (simp add: is_whitespace_def ascii_def)

section \<open>Properties of the request handler\<close>

lemma lastMessage_last: "lastMessage ms = (if ms = [] then None else Some (last ms))"
  by (simp add: lastMessage_def last_conv_nth)

lemma or_empty_Some: "or_empty (Some s) = s"
  by (simp add: or_empty_def truthy_def)

lemma or_empty_None: "or_empty None = []"
  by (simp add: or_empty_def)

lemma optional_parts_Some: "optional_parts (Some m) = property m (ascii ''parts'')"
  by (cases m) (simp_all add: optional_parts_def)

lemma filter_text_ok:
  "JNull \<notin> set ps \<Longrightarrow>
     filter_text ps =
       Inr (filter (\<lambda>p. property p (ascii ''type'') = Some (JString (ascii ''text''))) ps)"
  by (induction ps) auto

lemma filter_text_null: "JNull \<in> set ps \<Longrightarrow> filter_text ps = Inl TypeError"
  by (induction ps) (auto split: sum.splits)

lemma prompt_Nil: "prompt [] = Inr []"
  by (simp add: prompt_def lastMessage_last optional_parts_def or_empty_None)

lemma prompt_no_parts:
  "ms \<noteq> [] \<Longrightarrow>
     property (last ms) (ascii ''parts'') = None \<or>
     property (last ms) (ascii ''parts'') = Some JNull \<Longrightarrow>
     prompt ms = Inr []"
  by (auto simp: prompt_def lastMessage_last optional_parts_Some or_empty_None)

lemma prompt_parts:
  "ms \<noteq> [] \<Longrightarrow> property (last ms) (ascii ''parts'') = Some (JArray ps) \<Longrightarrow>
     JNull \<notin> set ps \<Longrightarrow>
     prompt ms =
       Inr (join [0x000A]
              (map (\<lambda>p. property p (ascii ''text''))
                 (filter (\<lambda>p. property p (ascii ''type'') = Some (JString (ascii ''text''))) ps)))"
  by (simp add: prompt_def lastMessage_last optional_parts_Some filter_text_ok or_empty_Some
      ascii_def)

lemma prompt_null_part:
  "ms \<noteq> [] \<Longrightarrow> property (last ms) (ascii ''parts'') = Some (JArray ps) \<Longrightarrow>
     JNull \<in> set ps \<Longrightarrow> prompt ms = Inl TypeError"
  by (simp add: prompt_def lastMessage_last optional_parts_Some filter_text_null)





lemma POST_prompt:
  "prompt ms = Inr p \<Longrightarrow>
   POST rt gid \<lparr>json = Inr \<lparr>messages = Some ms\<rparr>\<rparr> =
     Inr (UIMessageStreamResponse
            (map (inject_id gid)
               (written (execute_route rt p \<lparr>written = [], agent_calls = [], console = []\<rparr>))),
          agent_calls (execute_route rt p \<lparr>written = [], agent_calls = [], console = []\<rparr>),
          console (execute_route rt p \<lparr>written = [], agent_calls = [], console = []\<rparr>))"
  by (simp add: POST_def Let_def createUIMessageStream_def createUIMessageStreamResponse_def)

lemma POST_prompt_throws:
  "prompt ms = Inl e \<Longrightarrow> POST rt gid \<lparr>json = Inr \<lparr>messages = Some ms\<rparr>\<rparr> = Inl e"
  by (simp add: POST_def)

lemma execute_route_ok:
  "rt agent p = Inr out \<Longrightarrow>
     execute_route rt p w = w\<lparr>written := written w @ out, agent_calls := agent_calls w @ [p]\<rparr>"
  by (simp add: execute_route_def Let_def writer_merge_def)

lemma execute_route_throw:
  "rt agent p = Inl e \<Longrightarrow>
     execute_route rt p w =
       w\<lparr>written := written w @
            [TextStart (ascii ''error''),
             TextDelta (ascii ''error'') (ascii ''An error occurred. Please try again.''),
             TextEnd (ascii ''error'')],
         agent_calls := agent_calls w @ [p],
         console := console w @ [e]\<rparr>"
  by (simp add: execute_route_def Let_def writer_write_def console_error_def)

text \<open>
  C7, as stated: a last message with no text parts gives the empty prompt and no error.
  A \<open>parts\<close> array that holds \<open>null\<close> has no text part, and the extraction throws
  on it: the handler throws before the agent is started.
\<close>

theorem prompt_null_part_counterexample:
  "property (user_message [JNull]) (ascii ''parts'') = Some (JArray [JNull]) \<and>
   prompt [user_message [JNull]] = Inl TypeError \<and>
   POST echo_runtime generated_id (request_of [user_message [JNull]]) = Inl TypeError"
proof -
  have p: "property (user_message [JNull]) (ascii ''parts'') = Some (JArray [JNull])"
    by (simp add: user_message_def ascii_def)
  then have "prompt [user_message [JNull]] = Inl TypeError"
    by (simp add: prompt_null_part)
  with p show ?thesis
    by (simp add: request_of_def POST_prompt_throws)
qed

text \<open>
  C7, amended. Prompt extraction on degenerate input: when the messages array is empty,
  when the last message has no \<open>parts\<close> (it is \<open>null\<close> or no object, or its
  \<open>parts\<close> is absent or \<open>null\<close>), and when its \<open>parts\<close> is an array that holds no
  \<open>null\<close> and no element of type \<open>text\<close> (the empty array is one), the prompt is
  the empty string and no error is raised: the handler returns its response, having
  started the agent on the empty prompt.
\<close>

theorem prompt_degenerate:
  assumes "ms = [] \<or> property (last ms) (ascii ''parts'') = None \<or>
     property (last ms) (ascii ''parts'') = Some JNull \<or>
     (\<exists>ps. property (last ms) (ascii ''parts'') = Some (JArray ps) \<and> JNull \<notin> set ps \<and>
        (\<forall>p\<in>set ps. property p (ascii ''type'') \<noteq> Some (JString (ascii ''text''))))"
  shows "prompt ms = Inr (ascii '''') \<and>
     (\<exists>body logged. POST rt gid (request_of ms) = Inr (body, [ascii ''''], logged))"
proof -
  have empty: "prompt ms = Inr []"
  proof (cases "ms = []")
    case True
    then show ?thesis by (simp add: prompt_Nil)
  next
    case False
    show ?thesis
    proof (cases "property (last ms) (ascii ''parts'') = None \<or>
        property (last ms) (ascii ''parts'') = Some JNull")
      case True
      with False show ?thesis by (rule prompt_no_parts)
    next
      case other: False
      with assms False obtain ps where
        ps: "property (last ms) (ascii ''parts'') = Some (JArray ps)" "JNull \<notin> set ps"
          "\<forall>p\<in>set ps. property p (ascii ''type'') \<noteq> Some (JString (ascii ''text''))"
        by blast
      then have "filter (\<lambda>p. property p (ascii ''type'') = Some (JString (ascii ''text''))) ps = []"
        by (simp add: filter_empty_conv)
      with False ps show ?thesis by (simp add: prompt_parts join_def)
    qed
  qed
  have "\<exists>body logged. POST rt gid (request_of ms) = Inr (body, [[]], logged)"
    by (cases "rt agent []")
      (simp_all add: request_of_def POST_prompt [OF empty] execute_route_ok execute_route_throw)
  with empty show ?thesis by (simp add: ascii_def)
qed

theorem prompt_degenerate_witness:
  "prompt [] = Inr [] \<and>
   prompt [user_message [text_of ''hi''], bare_message] = Inr [] \<and>
   prompt [JNull] = Inr [] \<and>
   prompt [user_message []] = Inr [] \<and>
   prompt [user_message [tool_call, tool_call]] = Inr [] \<and>
   POST echo_runtime generated_id (request_of []) =
     Inr (UIMessageStreamResponse
            [Start (Some generated_id), TextStart (ascii ''0''), TextDelta (ascii ''0'') [],
             TextEnd (ascii ''0'')],
          [[]], [])"
  using prompt_degenerate [of "[]" echo_runtime generated_id]
    prompt_degenerate [of "[user_message [text_of ''hi''], bare_message]" echo_runtime generated_id]
    prompt_degenerate [of "[JNull]" echo_runtime generated_id]
    prompt_degenerate [of "[user_message []]" echo_runtime generated_id]
    prompt_degenerate [of "[user_message [tool_call, tool_call]]" echo_runtime generated_id]
  by (simp add: user_message_def bare_message_def tool_call_def text_of_def ascii_def
      request_of_def POST_prompt [OF prompt_Nil] execute_route_ok echo_runtime_def)






text \<open>
  C4. When starting the agent run throws, the handler catches the error: it logs it,
  writes \<open>text-start\<close>, \<open>text-delta\<close> with the fixed text and \<open>text-end\<close>, all with
  the id \<open>error\<close>, does not rethrow, and returns the stream response. It is the only
  failure the handler handles: an error of \<open>request.json()\<close>, a body without
  \<open>messages\<close> and an error of the prompt's extraction make the handler itself throw.
\<close>

theorem POST_catches_agent_error:
  "(json req = Inr b \<and> messages b = Some ms \<and> prompt ms = Inr p \<and> rt agent p = Inl e \<longrightarrow>
      POST rt gid req =
        Inr (UIMessageStreamResponse
               [TextStart (ascii ''error''),
                TextDelta (ascii ''error'') (ascii ''An error occurred. Please try again.''),
                TextEnd (ascii ''error'')],
             [p], [e])) \<and>
   (json req = Inl e' \<longrightarrow> POST rt gid req = Inl e') \<and>
   (json req = Inr b \<and> messages b = None \<longrightarrow> POST rt gid req = Inl TypeError) \<and>
   (json req = Inr b \<and> messages b = Some ms \<and> prompt ms = Inl e' \<longrightarrow> POST rt gid req = Inl e')"
proof -
  have "POST rt gid req =
        Inr (UIMessageStreamResponse
               [TextStart (ascii ''error''),
                TextDelta (ascii ''error'') (ascii ''An error occurred. Please try again.''),
                TextEnd (ascii ''error'')],
             [p], [e])"
    if "json req = Inr b" "messages b = Some ms" "prompt ms = Inr p" "rt agent p = Inl e"
  proof -
    have req: "req = \<lparr>json = Inr \<lparr>messages = Some ms\<rparr>\<rparr>"
      using that by (cases req, cases b) simp
    show ?thesis
      unfolding req using that(4) by (simp add: POST_prompt [OF that(3)] execute_route_throw)
  qed
  then show ?thesis by (simp add: POST_def)
qed

theorem POST_catches_agent_error_witness:
  "POST failing_runtime generated_id (request_of []) =
     Inr (UIMessageStreamResponse
            [TextStart (ascii ''error''),
             TextDelta (ascii ''error'') (ascii ''An error occurred. Please try again.''),
             TextEnd (ascii ''error'')],
          [[]], [Thrown (ascii ''gateway unreachable'')]) \<and>
   POST failing_runtime generated_id \<lparr>json = Inl SyntaxError\<rparr> = Inl SyntaxError \<and>
   POST failing_runtime generated_id \<lparr>json = Inr \<lparr>messages = None\<rparr>\<rparr> = Inl TypeError \<and>
   POST failing_runtime generated_id (request_of [user_message [JNull]]) = Inl TypeError"
proof -
  have "property (user_message [JNull]) (ascii ''parts'') = Some (JArray [JNull])"
    by (simp add: user_message_def ascii_def)
  then have n: "prompt [user_message [JNull]] = Inl TypeError"
    by (simp add: prompt_null_part)
  show ?thesis
    using
      POST_catches_agent_error
        [of "request_of []" "\<lparr>messages = Some []\<rparr>" "[]" "[]" failing_runtime
            "Thrown (ascii ''gateway unreachable'')" generated_id SyntaxError]
      POST_catches_agent_error
        [of "\<lparr>json = Inl SyntaxError\<rparr>" "\<lparr>messages = None\<rparr>" "[]" "[]" failing_runtime
            "Thrown (ascii ''gateway unreachable'')" generated_id SyntaxError]
      POST_catches_agent_error
        [of "\<lparr>json = Inr \<lparr>messages = None\<rparr>\<rparr>" "\<lparr>messages = None\<rparr>" "[]" "[]"
            failing_runtime "Thrown (ascii ''gateway unreachable'')" generated_id SyntaxError]
      POST_catches_agent_error
        [of "request_of [user_message [JNull]]" "\<lparr>messages = Some [user_message [JNull]]\<rparr>"
            "[user_message [JNull]]" "[]" failing_runtime
            "Thrown (ascii ''gateway unreachable'')" generated_id TypeError]
    by (simp add: request_of_def prompt_Nil failing_runtime_def n)
qed

section \<open>Properties of the agent and its tools\<close>

lemma tools_agent: "tools agent = []"
  by (simp add: tools_def agent_def)

lemma tools_agent_complete: "tools (agent_complete sh) = [(''bashTool'', createBashTool sh)]"
  by (simp add: tools_def agent_complete_def)

lemma execute_createBashTool:
  "execute (createBashTool sh) inp sb =
     (\<lparr>stdout = result_stdout (fst (sh (files sb) (command inp) (args inp))),
       stderr = result_stderr (fst (sh (files sb) (command inp) (args inp))),
       exitCode = result_exitCode (fst (sh (files sb) (command inp) (args inp)))\<rparr>,
      \<lparr>files = snd (sh (files sb) (command inp) (args inp)),
       history = history sb @ [(command inp, args inp)]\<rparr>)"
  by (simp add: createBashTool_def runCommand_def Let_def split: prod.split)

lemma readFile_File:
  "calls_dir w = Some d \<Longrightarrow> map_of d n = Some (File b) \<Longrightarrow> readFile w n = Inr b"
  by (simp add: readFile_def)

lemma copy_loop_files:
  assumes "calls_dir w = Some d"
    and "\<forall>n\<in>set names. \<exists>b. map_of d n = Some (File b)"
  shows "\<exists>sb'. copy_loop w names sb = Inr sb' \<and> history sb' = history sb \<and>
     (\<forall>n\<in>set names. \<forall>b. map_of d n = Some (File b) \<longrightarrow>
        files sb' (ascii ''calls/'' @ n) = Some b) \<and>
     (\<forall>p. p \<notin> (\<lambda>n. ascii ''calls/'' @ n) ` set names \<longrightarrow> files sb' p = files sb p)"
  using assms(2)
proof (induction names arbitrary: sb)
  case Nil
  then show ?case by simp
next
  case (Cons n names)
  from Cons.prems obtain b where b: "map_of d n = Some (File b)"
    by auto
  from Cons.prems have rest: "\<forall>m\<in>set names. \<exists>c. map_of d m = Some (File c)"
    by simp
  define sb1 where "sb1 = writeFiles sb [\<lparr>path = ascii ''calls/'' @ n, content = b\<rparr>]"
  have sb1: "files sb1 = (files sb)(ascii ''calls/'' @ n \<mapsto> b)" "history sb1 = history sb"
    by (simp_all add: sb1_def writeFiles_def)
  have step: "copy_loop w (n # names) sb = copy_loop w names sb1"
    using assms(1) b by (simp add: readFile_File sb1_def)
  from Cons.IH [OF rest, of sb1] obtain sb' where
    run: "copy_loop w names sb1 = Inr sb'" and hist: "history sb' = history sb1" and
    copied: "\<forall>m\<in>set names. \<forall>c. map_of d m = Some (File c) \<longrightarrow>
               files sb' (ascii ''calls/'' @ m) = Some c" and
    others: "\<forall>p. p \<notin> (\<lambda>m. ascii ''calls/'' @ m) ` set names \<longrightarrow> files sb' p = files sb1 p"
    by blast
  have c1: "files sb' (ascii ''calls/'' @ m) = Some c"
    if "m \<in> set (n # names)" "map_of d m = Some (File c)" for m c
  proof (cases "m \<in> set names")
    case True
    with copied that show ?thesis by blast
  next
    case False
    with that have m: "m = n" by simp
    with that b have c: "c = b" by simp
    from False m have "ascii ''calls/'' @ n \<notin> (\<lambda>m. ascii ''calls/'' @ m) ` set names"
      by auto
    with others have "files sb' (ascii ''calls/'' @ n) = files sb1 (ascii ''calls/'' @ n)"
      by blast
    with sb1 m c show ?thesis by simp
  qed
  have c2: "files sb' p = files sb p"
    if "p \<notin> (\<lambda>m. ascii ''calls/'' @ m) ` set (n # names)" for p
  proof -
    from that have "p \<notin> (\<lambda>m. ascii ''calls/'' @ m) ` set names" "p \<noteq> ascii ''calls/'' @ n"
      by auto
    with others sb1 show ?thesis by simp
  qed
  have "copy_loop w (n # names) sb = Inr sb'"
    using step run by simp
  moreover have "history sb' = history sb"
    using hist sb1(2) by simp
  ultimately show ?case
    using c1 c2 by blast
qed

lemma loadSandboxFiles_files:
  assumes "calls_dir w = Some d" and "\<forall>n. map_of d n \<noteq> Some Directory"
  shows "\<exists>sb'. loadSandboxFiles w sb = Inr sb' \<and> history sb' = history sb \<and>
     (\<forall>n b. map_of d n = Some (File b) \<longrightarrow> files sb' (ascii ''calls/'' @ n) = Some b) \<and>
     (\<forall>p. p \<notin> (\<lambda>n. ascii ''calls/'' @ n) ` fst ` set d \<longrightarrow> files sb' p = files sb p)"
proof -
  have all_files: "\<forall>n\<in>set (map fst d). \<exists>b. map_of d n = Some (File b)"
  proof
    fix n assume "n \<in> set (map fst d)"
    then have "map_of d n \<noteq> None"
      by (simp add: map_of_eq_None_iff)
    then obtain e where e: "map_of d n = Some e"
      by blast
    with assms(2) have "e \<noteq> Directory" by auto
    with e show "\<exists>b. map_of d n = Some (File b)" by (cases e) simp_all
  qed
  have names: "n \<in> set (map fst d)" if "map_of d n = Some (File b)" for n b
  proof -
    from that have "(n, File b) \<in> set d" by (rule map_of_SomeD)
    then show ?thesis by force
  qed
  from copy_loop_files [OF assms(1) all_files, of sb] obtain sb' where
    run: "copy_loop w (map fst d) sb = Inr sb'" and hist: "history sb' = history sb" and
    copied: "\<forall>n\<in>set (map fst d). \<forall>b. map_of d n = Some (File b) \<longrightarrow>
        files sb' (ascii ''calls/'' @ n) = Some b" and
    others: "\<forall>p. p \<notin> (\<lambda>n. ascii ''calls/'' @ n) ` set (map fst d) \<longrightarrow>
        files sb' p = files sb p"
    by blast
  have "loadSandboxFiles w sb = Inr sb'"
    using assms(1) run by (simp add: loadSandboxFiles_def readdir_def)
  moreover have "\<forall>n b. map_of d n = Some (File b) \<longrightarrow> files sb' (ascii ''calls/'' @ n) = Some b"
    using copied names by blast
  moreover have "\<forall>p. p \<notin> (\<lambda>n. ascii ''calls/'' @ n) ` fst ` set d \<longrightarrow> files sb' p = files sb p"
    using others by simp
  ultimately show ?thesis
    using hist by blast
qed

lemma copy_loop_directory:
  assumes "calls_dir w = Some d"
    and "\<forall>n\<in>set names. map_of d n \<noteq> None"
    and "\<exists>n\<in>set names. map_of d n = Some Directory"
  shows "copy_loop w names sb = Inl EISDIR"
  using assms(2,3)
proof (induction names arbitrary: sb)
  case Nil
  then show ?case by simp
next
  case (Cons n names)
  from Cons.prems(1) obtain e where e: "map_of d n = Some e"
    by auto
  show ?case
  proof (cases e)
    case Directory
    with e assms(1) show ?thesis by (simp add: readFile_def)
  next
    case (File b)
    with e Cons.prems(2) have later: "\<exists>m\<in>set names. map_of d m = Some Directory"
      by auto
    from Cons.prems(1) have known: "\<forall>m\<in>set names. map_of d m \<noteq> None"
      by simp
    from e File assms(1) have "readFile w n = Inr b"
      by (simp add: readFile_File)
    then show ?thesis
      using Cons.IH [OF known later] by simp
  qed
qed

lemma loadSandboxFiles_directory:
  assumes "calls_dir w = Some d" and "map_of d n = Some Directory"
  shows "loadSandboxFiles w sb = Inl EISDIR"
proof -
  have known: "\<forall>m\<in>set (map fst d). map_of d m \<noteq> None"
    by (simp add: map_of_eq_None_iff)
  from assms(2) have "(n, Directory) \<in> set d" by (rule map_of_SomeD)
  then have "n \<in> set (map fst d)" by force
  with assms(2) have "\<exists>m\<in>set (map fst d). map_of d m = Some Directory"
    by blast
  from copy_loop_directory [OF assms(1) known this] assms(1) show ?thesis
    by (simp add: loadSandboxFiles_def readdir_def)
qed

text \<open>
  C6. The agent is constructed from a settings object with exactly three fields:
  \<open>model\<close>, a model identifier; \<open>tools\<close>, the set of tools; \<open>instructions\<close>, the
  system instruction string. No other field is supplied.
\<close>

theorem agent_three_settings:
  "map fst (settings agent) = [''model'', ''tools'', ''instructions''] \<and>
   distinct (map fst (settings agent)) \<and>
   length (settings agent) = 3 \<and>
   map_of (settings agent) ''model'' = Some (StringSetting (ascii ''anthropic/claude-opus-4.6'')) \<and>
   map_of (settings agent) ''tools'' = Some (ToolsSetting []) \<and>
   map_of (settings agent) ''instructions'' = Some (StringSetting (ascii ''''))"
  by (simp add: agent_def)

text \<open>
  C1, as stated: the agent's tool set contains exactly one tool. The agent of
  \<open>lib/agent.ts\<close> is constructed with \<open>tools: {}\<close>.
\<close>

theorem agent_one_tool_counterexample: "length (tools agent) \<noteq> 1"
  by (simp add: tools_agent)

text \<open>
  C1, amended. The tool set of the agent of \<open>lib/agent.ts\<close> is empty. The tool set of
  the README's completed agent contains exactly one tool, \<open>bashTool\<close>, and that tool
  forwards the generated command and its arguments to the sandbox's \<open>runCommand\<close>,
  once, and returns the stdout, stderr and exit code of that run.
\<close>

theorem bashTool_relays_command:
  "tools agent = [] \<and>
   tools (agent_complete sh) = [(''bashTool'', createBashTool sh)] \<and>
   stdout (fst (execute (createBashTool sh) inp sb)) =
     result_stdout (fst (sh (files sb) (command inp) (args inp))) \<and>
   stderr (fst (execute (createBashTool sh) inp sb)) =
     result_stderr (fst (sh (files sb) (command inp) (args inp))) \<and>
   exitCode (fst (execute (createBashTool sh) inp sb)) =
     result_exitCode (fst (sh (files sb) (command inp) (args inp))) \<and>
   history (snd (execute (createBashTool sh) inp sb)) =
     history sb @ [(command inp, args inp)] \<and>
   files (snd (execute (createBashTool sh) inp sb)) =
     snd (sh (files sb) (command inp) (args inp))"
  by (simp add: tools_agent tools_agent_complete execute_createBashTool)

text \<open>
  C5, as stated: the tool's input schema has exactly one field. The agent of
  \<open>lib/agent.ts\<close> has no tool and so no schema; the schema of the README's bash tool
  has two fields.
\<close>

theorem one_field_schema_counterexample:
  "tools agent = [] \<and>
   map fst (inputSchema (createBashTool echo_executor)) = [''command'', ''args''] \<and>
   length (inputSchema (createBashTool echo_executor)) \<noteq> 1"
  by (simp add: tools_agent createBashTool_def)

text \<open>
  C5, amended. The agent of \<open>lib/agent.ts\<close> declares no tool. The input schema of the
  README's bash tool has exactly two fields, \<open>command\<close> (a string) and \<open>args\<close> (an
  array of strings), and both values are passed unmodified, in this order, to the
  executor: the executor is applied to them as they are, and they are what the
  sandbox's history records.
\<close>

theorem bashTool_schema_forwarded:
  "tools agent = [] \<and>
   map (\<lambda>(name, type, _). (name, type)) (inputSchema (createBashTool sh)) =
     [(''command'', ZString), (''args'', ZArray ZString)] \<and>
   execute (createBashTool sh) \<lparr>command = c, args = as\<rparr> sb =
     (\<lparr>stdout = result_stdout (fst (sh (files sb) c as)),
       stderr = result_stderr (fst (sh (files sb) c as)),
       exitCode = result_exitCode (fst (sh (files sb) c as))\<rparr>,
      \<lparr>files = snd (sh (files sb) c as), history = history sb @ [(c, as)]\<rparr>)"
  by (simp add: tools_agent execute_createBashTool) (simp add: createBashTool_def)

text \<open>
  C2, as stated: at startup every local file is copied into the sandbox. Loading
  \<open>lib/agent.ts\<close> with two files in \<open>lib/calls\<close> gives the agent and leaves the
  world as it was: no sandbox exists, and no file was copied.
\<close>

theorem startup_copy_counterexample:
  "calls_dir example_world =
     Some [(ascii ''1.md'', File [0x68, 0x69]), (ascii ''2.md'', File [0x6F])] \<and>
   module_agent example_world = Inr (agent, example_world) \<and>
   sandboxes example_world = []"
  by (simp add: module_agent_def example_world_def)

text \<open>
  C2, amended. Loading \<open>lib/agent.ts\<close> as it stands copies nothing: it gives the agent
  and leaves the local files and the sandboxes untouched. The copy step is the README's
  \<open>loadSandboxFiles\<close>, which its completed module runs once, on a new sandbox, before
  the agent is constructed. Where \<open>lib/calls\<close> exists and every entry of it is a
  file, the module gives the agent with one new sandbox, in which every file of the
  directory is at \<open>calls/<name>\<close> with its content, no other path holds a file, and
  no command was run. Where an entry of the directory is itself a directory, loading
  throws \<open>EISDIR\<close>, and where the directory is missing, \<open>ENOENT\<close>; no agent is
  constructed then.
\<close>

theorem startup_copy:
  "module_agent w = Inr (agent, w) \<and>
   (calls_dir w = Some d \<and> (\<forall>n. map_of d n \<noteq> Some Directory) \<longrightarrow>
      (\<exists>sb. module_agent_complete sh w =
               Inr (agent_complete sh, w\<lparr>sandboxes := sandboxes w @ [sb]\<rparr>) \<and>
            (\<forall>n b. map_of d n = Some (File b) \<longrightarrow> files sb (ascii ''calls/'' @ n) = Some b) \<and>
            (\<forall>p. p \<notin> (\<lambda>n. ascii ''calls/'' @ n) ` fst ` set d \<longrightarrow> files sb p = None) \<and>
            history sb = [])) \<and>
   (calls_dir w = Some d \<and> (\<exists>n. map_of d n = Some Directory) \<longrightarrow>
      module_agent_complete sh w = Inl EISDIR) \<and>
   (calls_dir w = None \<longrightarrow> module_agent_complete sh w = Inl ENOENT)"
proof -
  have src: "module_agent w = Inr (agent, w)"
    by (simp add: module_agent_def)
  have missing: "calls_dir w = None \<longrightarrow> module_agent_complete sh w = Inl ENOENT"
    by (simp add: module_agent_complete_def loadSandboxFiles_def readdir_def)
  have isdir: "module_agent_complete sh w = Inl EISDIR"
    if "calls_dir w = Some d" "map_of d n = Some Directory" for n
    using loadSandboxFiles_directory [OF that, of Sandbox_create]
    by (simp add: module_agent_complete_def)
  have copy: "\<exists>sb. module_agent_complete sh w =
               Inr (agent_complete sh, w\<lparr>sandboxes := sandboxes w @ [sb]\<rparr>) \<and>
            (\<forall>n b. map_of d n = Some (File b) \<longrightarrow> files sb (ascii ''calls/'' @ n) = Some b) \<and>
            (\<forall>p. p \<notin> (\<lambda>n. ascii ''calls/'' @ n) ` fst ` set d \<longrightarrow> files sb p = None) \<and>
            history sb = []"
    if dir: "calls_dir w = Some d" "\<forall>n. map_of d n \<noteq> Some Directory"
  proof -
    from loadSandboxFiles_files [OF dir, of Sandbox_create] obtain sb where
      run: "loadSandboxFiles w Sandbox_create = Inr sb" and
      hist: "history sb = history Sandbox_create" and
      copied: "\<forall>n b. map_of d n = Some (File b) \<longrightarrow> files sb (ascii ''calls/'' @ n) = Some b" and
      others: "\<forall>p. p \<notin> (\<lambda>n. ascii ''calls/'' @ n) ` fst ` set d \<longrightarrow>
        files sb p = files Sandbox_create p"
      by blast
    have "module_agent_complete sh w =
        Inr (agent_complete sh, w\<lparr>sandboxes := sandboxes w @ [sb]\<rparr>)"
      using run by (simp add: module_agent_complete_def)
    moreover have "history sb = []"
      using hist by (simp add: Sandbox_create_def)
    moreover have "\<forall>p. p \<notin> (\<lambda>n. ascii ''calls/'' @ n) ` fst ` set d \<longrightarrow> files sb p = None"
      using others by (simp add: Sandbox_create_def)
    ultimately show ?thesis
      using copied by blast
  qed
  from src missing copy isdir show ?thesis
    by blast
qed

theorem startup_copy_witness:
  "calls_dir example_world =
     Some [(ascii ''1.md'', File [0x68, 0x69]), (ascii ''2.md'', File [0x6F])] \<and>
   module_agent example_world = Inr (agent, example_world) \<and>
   module_agent_complete echo_executor example_world =
     Inr (agent_complete echo_executor,
          example_world
            \<lparr>sandboxes :=
               [\<lparr>files = [ascii ''calls/1.md'' \<mapsto> [0x68, 0x69], ascii ''calls/2.md'' \<mapsto> [0x6F]],
                 history = []\<rparr>]\<rparr>) \<and>
   map_of [(ascii ''1.md'', File [0x68, 0x69]), (ascii ''old'', Directory),
           (ascii ''z.md'', File [0x6F])] (ascii ''old'') = Some Directory \<and>
   module_agent_complete echo_executor directory_world = Inl EISDIR \<and>
   module_agent_complete echo_executor \<lparr>calls_dir = None, sandboxes = []\<rparr> = Inl ENOENT"
  using
    startup_copy
      [of example_world "[(ascii ''1.md'', File [0x68, 0x69]), (ascii ''2.md'', File [0x6F])]"
          echo_executor]
    startup_copy
      [of directory_world
          "[(ascii ''1.md'', File [0x68, 0x69]), (ascii ''old'', Directory),
            (ascii ''z.md'', File [0x6F])]"
          echo_executor]
    startup_copy [of "\<lparr>calls_dir = None, sandboxes = []\<rparr>" "[]" echo_executor]
  by (simp add: example_world_def directory_world_def module_agent_complete_def
      loadSandboxFiles_def readdir_def readFile_def writeFiles_def Sandbox_create_def ascii_def)

end
